theory Spec2Isabelle
  imports Main
begin

section \<open>Python values and objects\<close>

text \<open>
  Header names and values arrive as \<^verbatim>\<open>bytes\<close> and are decoded with latin-1, which maps
  byte \<open>n\<close> to code point \<open>n\<close>.  A \<^typ>\<open>char\<close> is one byte, so both the raw bytes and the
  decoded \<^verbatim>\<open>str\<close> are a \<^typ>\<open>string\<close>, and \<^verbatim>\<open>encode\<close>/\<^verbatim>\<open>decode\<close> are the identity.
\<close>

type_synonym bytes = string

text \<open>The values kept in the metadata mapping (\<^verbatim>\<open>Any\<close>); the program itself stores strings.\<close>

datatype pyval = PyNone | PyStr string

type_synonym pydict = "string \<rightharpoonup> pyval"

text \<open>
  Dictionaries are objects: a variable holds a reference (an address) and the object
  lives in the heap, so that two holders of one reference see each other's writes.
\<close>

type_synonym addr = nat

section \<open>\<^verbatim>\<open>shared/request_context.py\<close>\<close>

text \<open>
  A \<^verbatim>\<open>ContextVar\<close> has one slot per execution context.  A slot is \<open>None\<close> while nothing
  was \<^verbatim>\<open>set\<close> in that context; \<^verbatim>\<open>get()\<close> then returns the default given at construction.
  The three string variables hold \<^verbatim>\<open>str | None\<close>, the metadata variable a reference to a
  dictionary (or Python's \<^verbatim>\<open>None\<close>, which \<^verbatim>\<open>set_request_metadata\<close> checks for).
\<close>

record "context" =
  request_user_token :: "string option option"
  request_server_url :: "string option option"
  request_data_partition :: "string option option"
  request_metadata :: "addr option option"

record world =
  heap :: "addr \<Rightarrow> pydict"
  next_addr :: addr
  contexts :: "nat \<Rightarrow> context"

definition ctxvar_get :: "'a \<Rightarrow> 'a option \<Rightarrow> 'a" where
  "ctxvar_get dflt slot = (case slot of None \<Rightarrow> dflt | Some x \<Rightarrow> x)"

text \<open>
  \<^verbatim>\<open>ContextVar("request_metadata", default={})\<close>: the default is the one dictionary object
  built when the module is imported.  It lives at address \<open>0\<close>.
\<close>

definition default_metadata :: addr where
  "default_metadata = 0"

definition unset_context :: "context" where
  "unset_context = \<lparr>request_user_token = None, request_server_url = None,
     request_data_partition = None, request_metadata = None\<rparr>"

text \<open>The state after import: the default dictionary is empty, no context has set anything.\<close>

definition initial_world :: world where
  "initial_world = \<lparr>heap = (\<lambda>_. Map.empty), next_addr = 1, contexts = (\<lambda>_. unset_context)\<rparr>"

definition upd_context :: "nat \<Rightarrow> (context \<Rightarrow> context) \<Rightarrow> world \<Rightarrow> world" where
  "upd_context c f w = w\<lparr>contexts := (contexts w)(c := f (contexts w c))\<rparr>"

definition set_request_user_token :: "nat \<Rightarrow> string option \<Rightarrow> world \<Rightarrow> world" where
  "set_request_user_token c token w = upd_context c (\<lambda>x. x\<lparr>request_user_token := Some token\<rparr>) w"

definition get_request_user_token :: "nat \<Rightarrow> world \<Rightarrow> string option" where
  "get_request_user_token c w = ctxvar_get None (request_user_token (contexts w c))"

definition clear_request_user_token :: "nat \<Rightarrow> world \<Rightarrow> world" where
  "clear_request_user_token c w = upd_context c (\<lambda>x. x\<lparr>request_user_token := Some None\<rparr>) w"

definition set_request_server_url :: "nat \<Rightarrow> string option \<Rightarrow> world \<Rightarrow> world" where
  "set_request_server_url c url w = upd_context c (\<lambda>x. x\<lparr>request_server_url := Some url\<rparr>) w"

definition get_request_server_url :: "nat \<Rightarrow> world \<Rightarrow> string option" where
  "get_request_server_url c w = ctxvar_get None (request_server_url (contexts w c))"

definition clear_request_server_url :: "nat \<Rightarrow> world \<Rightarrow> world" where
  "clear_request_server_url c w = upd_context c (\<lambda>x. x\<lparr>request_server_url := Some None\<rparr>) w"

definition set_request_data_partition :: "nat \<Rightarrow> string option \<Rightarrow> world \<Rightarrow> world" where
  "set_request_data_partition c part w =
     upd_context c (\<lambda>x. x\<lparr>request_data_partition := Some part\<rparr>) w"

definition get_request_data_partition :: "nat \<Rightarrow> world \<Rightarrow> string option" where
  "get_request_data_partition c w = ctxvar_get None (request_data_partition (contexts w c))"

definition clear_request_data_partition :: "nat \<Rightarrow> world \<Rightarrow> world" where
  "clear_request_data_partition c w =
     upd_context c (\<lambda>x. x\<lparr>request_data_partition := Some None\<rparr>) w"

text \<open>A dictionary display (\<^verbatim>\<open>{}\<close>) builds a new object at the next free address.\<close>

definition new_dict :: "pydict \<Rightarrow> world \<Rightarrow> addr \<times> world" where
  "new_dict d w = (next_addr w, w\<lparr>heap := (heap w)(next_addr w := d), next_addr := Suc (next_addr w)\<rparr>)"

text \<open>
  \<^verbatim>\<open>current = _request_metadata.get()\<close> yields a reference; \<^verbatim>\<open>current[key] = value\<close> writes
  into the object it refers to; \<^verbatim>\<open>_request_metadata.set(current)\<close> stores the reference.
\<close>

definition set_request_metadata :: "nat \<Rightarrow> string \<Rightarrow> pyval \<Rightarrow> world \<Rightarrow> world" where
  "set_request_metadata c key v w =
     (let current = ctxvar_get (Some default_metadata) (request_metadata (contexts w c));
          (a, w1) = (case current of None \<Rightarrow> new_dict Map.empty w | Some a \<Rightarrow> (a, w));
          w2 = w1\<lparr>heap := (heap w1)(a := (heap w1 a)(key \<mapsto> v))\<rparr>
      in upd_context c (\<lambda>x. x\<lparr>request_metadata := Some (Some a)\<rparr>) w2)"

definition get_request_metadata :: "nat \<Rightarrow> string \<Rightarrow> pyval \<Rightarrow> world \<Rightarrow> pyval" where
  "get_request_metadata c key dflt w =
     (let current = ctxvar_get (Some default_metadata) (request_metadata (contexts w c))
      in case current of
           None \<Rightarrow> dflt
         | Some a \<Rightarrow> (case heap w a key of None \<Rightarrow> dflt | Some v \<Rightarrow> v))"

definition clear_request_metadata :: "nat \<Rightarrow> world \<Rightarrow> world" where
  "clear_request_metadata c w =
     (let (a, w1) = new_dict Map.empty w
      in upd_context c (\<lambda>x. x\<lparr>request_metadata := Some (Some a)\<rparr>) w1)"

section \<open>\<^verbatim>\<open>http_app.py\<close>\<close>

definition USER_TOKEN_HEADER :: string where
  "USER_TOKEN_HEADER = ''osdu_mcp_user_token''"

definition ALT_TOKEN_HEADERS :: "string list" where
  "ALT_TOKEN_HEADERS = [''osdu-mcp-user-token'', ''x-osdu-mcp-user-token'']"

definition SERVER_URL_HEADER :: string where
  "SERVER_URL_HEADER = ''osdu_mcp_server_url''"

definition ALT_SERVER_URL_HEADERS :: "string list" where
  "ALT_SERVER_URL_HEADERS = [''osdu-mcp-server-url'', ''x-osdu-mcp-server-url'']"

definition DATA_PARTITION_HEADER :: string where
  "DATA_PARTITION_HEADER = ''osdu_mcp_data_partition''"

definition ALT_DATA_PARTITION_HEADERS :: "string list" where
  "ALT_DATA_PARTITION_HEADERS = [''osdu-mcp-data-partition'', ''x-osdu-mcp-data-partition'']"

text \<open>
  \<^verbatim>\<open>str.lower()\<close> on code points below 256: the ASCII capitals and the Latin-1 capitals
  \<open>0xC0..0xDE\<close> (without the multiplication sign \<open>0xD7\<close>) move up by 32, every other
  character stays.  The result has the length of the argument.
\<close>

definition lower_char :: "char \<Rightarrow> char" where
  "lower_char ch =
     (let n = (of_char ch :: nat)
      in if (65 \<le> n \<and> n \<le> 90) \<or> (192 \<le> n \<and> n \<le> 222 \<and> n \<noteq> 215)
         then char_of (n + 32) else ch)"

definition lower :: "string \<Rightarrow> string" where
  "lower s = map lower_char s"

definition startswith :: "string \<Rightarrow> string \<Rightarrow> bool" where
  "startswith s p = (take (length p) s = p)"

text \<open>\<^verbatim>\<open>s.rstrip("/")\<close>: drop the slashes at the end, one after the other.\<close>

fun rstrip :: "char \<Rightarrow> string \<Rightarrow> string" where
  "rstrip ch s = rev (dropWhile (\<lambda>x. x = ch) (rev s))"

text \<open>
  The ASGI connection scope, as far as the middleware reads it: \<^verbatim>\<open>scope["type"]\<close> and
  \<^verbatim>\<open>scope.get("headers", [])\<close>, a list of (name, value) pairs of bytes that may be absent.
\<close>

record scope =
  scope_type :: string
  scope_headers :: "(bytes \<times> bytes) list option"

text \<open>\<^verbatim>\<open>dict(pairs)\<close>: pairs are inserted in order, a later pair replaces an earlier one.\<close>

fun dict_of :: "(bytes \<times> bytes) list \<Rightarrow> (bytes \<rightharpoonup> bytes) \<Rightarrow> (bytes \<rightharpoonup> bytes)" where
  "dict_of [] m = m"
| "dict_of ((k, v) # kvs) m = dict_of kvs (m(k \<mapsto> v))"

definition headers_of :: "scope \<Rightarrow> (bytes \<rightharpoonup> bytes)" where
  "headers_of sc = dict_of (case scope_headers sc of None \<Rightarrow> [] | Some hs \<Rightarrow> hs) Map.empty"

text \<open>
  \<^verbatim>\<open>_extract_header\<close>.  The values of an ASGI header dictionary are bytes, so the
  \<^verbatim>\<open>isinstance(value, bytes)\<close> branch is the one taken and the value is decoded.
\<close>

fun extract_header :: "(bytes \<rightharpoonup> bytes) \<Rightarrow> string list \<Rightarrow> string option" where
  "extract_header headers [] = None"
| "extract_header headers (header_name # header_names) =
     (let header_bytes = lower header_name
      in case headers header_bytes of
           Some v \<Rightarrow> Some v
         | None \<Rightarrow> extract_header headers header_names)"

text \<open>
  The three blocks of \<^verbatim>\<open>__call__\<close> that fill the context.  \<^verbatim>\<open>if token:\<close> is Python's truth
  test: \<^verbatim>\<open>None\<close> and the empty string are false.
\<close>

definition store_token :: "nat \<Rightarrow> string option \<Rightarrow> world \<Rightarrow> world" where
  "store_token c token w =
     (case token of
        None \<Rightarrow> w
      | Some t \<Rightarrow>
          if t = [] then w
          else let t' = (if startswith (lower t) ''bearer '' then drop 7 t else t)
               in set_request_metadata c ''token_source'' (PyStr ''http_header'')
                    (set_request_user_token c (Some t') w))"

definition store_server_url :: "nat \<Rightarrow> string option \<Rightarrow> world \<Rightarrow> world" where
  "store_server_url c server_url w =
     (case server_url of
        None \<Rightarrow> w
      | Some u \<Rightarrow>
          if u = [] then w
          else let u' = rstrip CHR ''/'' u
               in set_request_metadata c ''server_url_source'' (PyStr ''http_header'')
                    (set_request_server_url c (Some u') w))"

definition store_data_partition :: "nat \<Rightarrow> string option \<Rightarrow> world \<Rightarrow> world" where
  "store_data_partition c data_partition w =
     (case data_partition of
        None \<Rightarrow> w
      | Some p \<Rightarrow>
          if p = [] then w
          else set_request_metadata c ''data_partition_source'' (PyStr ''http_header'')
                 (set_request_data_partition c (Some p) w))"

text \<open>Lines 79 to 114 of \<^verbatim>\<open>__call__\<close>: the world handed to the wrapped application.\<close>

definition extract_context :: "nat \<Rightarrow> scope \<Rightarrow> world \<Rightarrow> world" where
  "extract_context c sc w =
     (let headers = headers_of sc;
          token = extract_header headers ([USER_TOKEN_HEADER] @ ALT_TOKEN_HEADERS);
          w1 = store_token c token w;
          server_url = extract_header headers ([SERVER_URL_HEADER] @ ALT_SERVER_URL_HEADERS);
          w2 = store_server_url c server_url w1;
          data_partition =
            extract_header headers ([DATA_PARTITION_HEADER] @ ALT_DATA_PARTITION_HEADERS)
      in store_data_partition c data_partition w2)"

text \<open>The \<^verbatim>\<open>finally\<close> block.\<close>

definition cleanup :: "nat \<Rightarrow> world \<Rightarrow> world" where
  "cleanup c w =
     clear_request_metadata c
       (clear_request_data_partition c
         (clear_request_server_url c
           (clear_request_user_token c w)))"

text \<open>
  The wrapped application runs on the scope and the world and either returns or raises;
  both are outcomes.  \<^verbatim>\<open>TokenExtractionMiddleware.__call__\<close> runs in context \<open>c\<close>.  Under
  \<^verbatim>\<open>try ... finally\<close> the cleanup runs for either outcome, and the outcome (a raised
  exception included) is passed on.
\<close>

datatype 'a outcome = Returned 'a | Raised string

type_synonym 'a asgi_app = "scope \<Rightarrow> world \<Rightarrow> 'a outcome \<times> world"

definition call :: "'a asgi_app \<Rightarrow> nat \<Rightarrow> scope \<Rightarrow> world \<Rightarrow> 'a outcome \<times> world" where
  "call app c sc w =
     (if scope_type sc \<notin> {''http'', ''websocket''} then app sc w
      else let w1 = extract_context c sc w;
               (r, w2) = app sc w1
           in (r, cleanup c w2))"

text \<open>
  What an ASGI server hands over for an HTTP request: it lowers the header names it read
  from the wire with \<^verbatim>\<open>bytes.lower()\<close>, which changes the ASCII capitals only.  The
  middleware relies on this: it looks up the lowered configured names among the keys as
  they are.
\<close>

definition bytes_lower :: "bytes \<Rightarrow> bytes" where
  "bytes_lower b =
     map (\<lambda>ch. let n = (of_char ch :: nat) in if 65 \<le> n \<and> n \<le> 90 then char_of (n + 32) else ch) b"

definition asgi_http_scope :: "(bytes \<times> bytes) list \<Rightarrow> scope" where
  "asgi_http_scope raw =
     \<lparr>scope_type = ''http'', scope_headers = Some (map (\<lambda>(n, v). (bytes_lower n, v)) raw)\<rparr>"

text \<open>The three override categories and the names configured for each, canonical first.\<close>

datatype category = Token | ServerUrl | DataPartition

fun header_names :: "category \<Rightarrow> string list" where
  "header_names Token = [USER_TOKEN_HEADER] @ ALT_TOKEN_HEADERS"
| "header_names ServerUrl = [SERVER_URL_HEADER] @ ALT_SERVER_URL_HEADERS"
| "header_names DataPartition = [DATA_PARTITION_HEADER] @ ALT_DATA_PARTITION_HEADERS"

text \<open>
  The prefix test in the words of the specification: the first seven characters are
  the letters of \<^verbatim>\<open>Bearer\<close>, each in either case, and a space.
\<close>

definition bearer_prefix_any_case :: "string \<Rightarrow> bool" where
  "bearer_prefix_any_case v =
     (7 \<le> length v
      \<and> v ! 0 \<in> {CHR ''B'', CHR ''b''} \<and> v ! 1 \<in> {CHR ''E'', CHR ''e''}
      \<and> v ! 2 \<in> {CHR ''A'', CHR ''a''} \<and> v ! 3 \<in> {CHR ''R'', CHR ''r''}
      \<and> v ! 4 \<in> {CHR ''E'', CHR ''e''} \<and> v ! 5 \<in> {CHR ''R'', CHR ''r''}
      \<and> v ! 6 = CHR '' '')"

section \<open>The Auth Resolver\<close>

text \<open>
  Modelled from the spec: \<^verbatim>\<open>shared/auth_handler.py\<close> is not among the sources; only its
  test is.  The static configuration holds an optional pre-configured token and what the
  managed-identity or credential-chain provider would issue (\<open>None\<close> when it has no
  usable credential).
\<close>

record auth_config =
  static_token :: "string option"
  credential_chain :: "string option"

text \<open>
  Modelled from the spec: the resolver fails with \<^verbatim>\<open>AuthenticationUnavailable\<close> when
  neither a request token nor a usable static credential exists.
\<close>

datatype auth_error = AuthenticationUnavailable

text \<open>
  Modelled from the spec: what can be observed of the fallback path, namely how often it
  was entered and how often the provider's \<^verbatim>\<open>get_token\<close> was called.
\<close>

record auth_state =
  static_path_calls :: nat
  provider_get_token_calls :: nat

text \<open>
  Modelled from the spec: the statically configured credential path (section 4.3, item 2
  and 3, and the strategy order of the design notes): the pre-configured token when
  there is one, otherwise the provider, otherwise the error.
\<close>

definition static_credential_path :: "auth_config \<Rightarrow> auth_state \<Rightarrow> (auth_error + string) \<times> auth_state" where
  "static_credential_path cfg st =
     (let st1 = st\<lparr>static_path_calls := Suc (static_path_calls st)\<rparr>
      in case static_token cfg of
           Some t \<Rightarrow> (Inr t, st1)
         | None \<Rightarrow>
             (let st2 = st1\<lparr>provider_get_token_calls := Suc (provider_get_token_calls st1)\<rparr>
              in case credential_chain cfg of
                   Some t \<Rightarrow> (Inr t, st2)
                 | None \<Rightarrow> (Inl AuthenticationUnavailable, st2)))"

text \<open>
  Modelled from the spec: \<^verbatim>\<open>AuthHandler.get_access_token\<close> (section 4.3): a request token
  that is not unset is returned as it is; otherwise the static path decides.  The
  resolver reads the store and does not change it.
\<close>

definition get_access_token :: "nat \<Rightarrow> auth_config \<Rightarrow> world \<Rightarrow> auth_state \<Rightarrow> (auth_error + string) \<times> auth_state" where
  "get_access_token c cfg w st =
     (case get_request_user_token c w of
        Some t \<Rightarrow> (Inr t, st)
      | None \<Rightarrow> static_credential_path cfg st)"

section \<open>The request context store\<close>

text \<open>
  C10.  \<^verbatim>\<open>set_request_metadata\<close> writes into the dictionary it got from the variable, and
  a context that never set or cleared the variable gets the one default dictionary.  So
  for any two distinct contexts that both still have the variable unset, a key written
  in the first is what \<^verbatim>\<open>get_request_metadata\<close> returns in the second, whatever default
  the reader passes.
\<close>

theorem metadata_default_shared:
  assumes "c1 \<noteq> c2"
    and "request_metadata (contexts w c1) = None"
    and "request_metadata (contexts w c2) = None"
  shows "get_request_metadata c2 key dflt (set_request_metadata c1 key v w) = v"
  using assms
  by (simp add: get_request_metadata_def set_request_metadata_def ctxvar_get_def
      upd_context_def Let_def)

theorem metadata_default_shared_witness:
  "(1::nat) \<noteq> 2
   \<and> request_metadata (contexts initial_world 1) = None
   \<and> request_metadata (contexts initial_world 2) = None
   \<and> get_request_metadata 2 ''token_source'' PyNone
       (set_request_metadata 1 ''token_source'' (PyStr ''http_header'') initial_world)
     = PyStr ''http_header''"
proof -
  have a: "(1::nat) \<noteq> 2" by simp
  have b: "request_metadata (contexts initial_world 1) = None"
    by (simp add: initial_world_def unset_context_def)
  have c: "request_metadata (contexts initial_world 2) = None"
    by (simp add: initial_world_def unset_context_def)
  from metadata_default_shared [OF a b c] a b c show ?thesis by blast
qed

section \<open>Auxiliary facts\<close>

subsection \<open>Lower case\<close>

lemma of_char_lower_char:
  "(of_char (lower_char ch) :: nat) =
     (if (65 \<le> (of_char ch :: nat) \<and> (of_char ch :: nat) \<le> 90)
         \<or> (192 \<le> (of_char ch :: nat) \<and> (of_char ch :: nat) \<le> 222 \<and> (of_char ch :: nat) \<noteq> 215)
      then of_char ch + 32 else of_char ch)"
  by (auto simp: lower_char_def Let_def)

lemma lower_char_eq_iff:
  "lower_char ch = d \<longleftrightarrow> (of_char (lower_char ch) :: nat) = of_char d"
  by simp

lemma char_eq_iff_nat: "ch = d \<longleftrightarrow> (of_char ch :: nat) = of_char d"
  by simp

lemma lower_char_b: "lower_char ch = CHR ''b'' \<longleftrightarrow> ch \<in> {CHR ''B'', CHR ''b''}"
  unfolding lower_char_eq_iff of_char_lower_char
  by (auto simp: char_eq_iff_nat [of ch])

lemma lower_char_e: "lower_char ch = CHR ''e'' \<longleftrightarrow> ch \<in> {CHR ''E'', CHR ''e''}"
  unfolding lower_char_eq_iff of_char_lower_char
  by (auto simp: char_eq_iff_nat [of ch])

lemma lower_char_a: "lower_char ch = CHR ''a'' \<longleftrightarrow> ch \<in> {CHR ''A'', CHR ''a''}"
  unfolding lower_char_eq_iff of_char_lower_char
  by (auto simp: char_eq_iff_nat [of ch])

lemma lower_char_r: "lower_char ch = CHR ''r'' \<longleftrightarrow> ch \<in> {CHR ''R'', CHR ''r''}"
  unfolding lower_char_eq_iff of_char_lower_char
  by (auto simp: char_eq_iff_nat [of ch])

lemma lower_char_space: "lower_char ch = CHR '' '' \<longleftrightarrow> ch = CHR '' ''"
  unfolding lower_char_eq_iff of_char_lower_char
  by (auto simp: char_eq_iff_nat [of ch])

lemma startswith_bearer:
  "startswith (lower v) ''bearer '' \<longleftrightarrow> bearer_prefix_any_case v"
proof (cases "7 \<le> length v")
  case False
  then have "length (take (length ''bearer '') (lower v)) \<noteq> length ''bearer ''"
    by (simp add: lower_def)
  then have "take (length ''bearer '') (lower v) \<noteq> ''bearer ''"
    by metis
  with False show ?thesis
    unfolding startswith_def bearer_prefix_any_case_def by blast
next
  case True
  then obtain x0 x1 x2 x3 x4 x5 x6 rest where v: "v = x0 # x1 # x2 # x3 # x4 # x5 # x6 # rest"
    by (auto simp: Suc_le_length_iff eval_nat_numeral)
  show ?thesis
    by (simp add: v startswith_def bearer_prefix_any_case_def lower_def
        lower_char_b lower_char_e lower_char_a lower_char_r lower_char_space)
qed

subsection \<open>What each operation leaves alone\<close>

lemma contexts_upd_context:
  "contexts (upd_context c f w) c' = (if c' = c then f (contexts w c) else contexts w c')"
  by (simp add: upd_context_def)

lemma heap_upd_context: "heap (upd_context c f w) = heap w"
  by (simp add: upd_context_def)

lemma token_slot_set_request_metadata:
  "request_user_token (contexts (set_request_metadata c key v w) c') = request_user_token (contexts w c')"
  by (simp add: set_request_metadata_def new_dict_def contexts_upd_context Let_def
      split: option.split prod.split)

lemma url_slot_set_request_metadata:
  "request_server_url (contexts (set_request_metadata c key v w) c') = request_server_url (contexts w c')"
  by (simp add: set_request_metadata_def new_dict_def contexts_upd_context Let_def
      split: option.split prod.split)

lemma partition_slot_set_request_metadata:
  "request_data_partition (contexts (set_request_metadata c key v w) c')
     = request_data_partition (contexts w c')"
  by (simp add: set_request_metadata_def new_dict_def contexts_upd_context Let_def
      split: option.split prod.split)

lemma get_request_metadata_other_key:
  assumes "key \<noteq> key'"
  shows "get_request_metadata c key dflt (set_request_metadata c key' v w)
     = get_request_metadata c key dflt w"
  using assms
  by (simp add: get_request_metadata_def set_request_metadata_def new_dict_def
      contexts_upd_context heap_upd_context ctxvar_get_def Let_def split: option.split)

lemma get_request_metadata_set_request_user_token:
  "get_request_metadata c key dflt (set_request_user_token c' t w) = get_request_metadata c key dflt w"
  by (simp add: get_request_metadata_def set_request_user_token_def contexts_upd_context
      heap_upd_context cong: option.case_cong)

lemma get_request_metadata_set_request_server_url:
  "get_request_metadata c key dflt (set_request_server_url c' t w) = get_request_metadata c key dflt w"
  by (simp add: get_request_metadata_def set_request_server_url_def contexts_upd_context
      heap_upd_context cong: option.case_cong)

lemma get_request_metadata_set_request_data_partition:
  "get_request_metadata c key dflt (set_request_data_partition c' t w) = get_request_metadata c key dflt w"
  by (simp add: get_request_metadata_def set_request_data_partition_def contexts_upd_context
      heap_upd_context cong: option.case_cong)

lemma token_slot_store_server_url:
  "request_user_token (contexts (store_server_url c u w) c') = request_user_token (contexts w c')"
  by (simp add: store_server_url_def token_slot_set_request_metadata set_request_server_url_def
      contexts_upd_context Let_def split: option.split)

lemma token_slot_store_data_partition:
  "request_user_token (contexts (store_data_partition c p w) c') = request_user_token (contexts w c')"
  by (simp add: store_data_partition_def token_slot_set_request_metadata
      set_request_data_partition_def contexts_upd_context split: option.split)

lemma url_slot_store_token:
  "request_server_url (contexts (store_token c t w) c') = request_server_url (contexts w c')"
  by (simp add: store_token_def url_slot_set_request_metadata set_request_user_token_def
      contexts_upd_context Let_def split: option.split)

lemma url_slot_store_data_partition:
  "request_server_url (contexts (store_data_partition c p w) c') = request_server_url (contexts w c')"
  by (simp add: store_data_partition_def url_slot_set_request_metadata
      set_request_data_partition_def contexts_upd_context split: option.split)

lemma partition_slot_store_token:
  "request_data_partition (contexts (store_token c t w) c') = request_data_partition (contexts w c')"
  by (simp add: store_token_def partition_slot_set_request_metadata set_request_user_token_def
      contexts_upd_context Let_def split: option.split)

lemma partition_slot_store_server_url:
  "request_data_partition (contexts (store_server_url c u w) c') = request_data_partition (contexts w c')"
  by (simp add: store_server_url_def partition_slot_set_request_metadata set_request_server_url_def
      contexts_upd_context Let_def split: option.split)

lemma token_source_store_server_url:
  "get_request_metadata c ''token_source'' dflt (store_server_url c u w)
     = get_request_metadata c ''token_source'' dflt w"
  by (simp add: store_server_url_def get_request_metadata_other_key
      get_request_metadata_set_request_server_url Let_def split: option.split)

lemma token_source_store_data_partition:
  "get_request_metadata c ''token_source'' dflt (store_data_partition c p w)
     = get_request_metadata c ''token_source'' dflt w"
  by (simp add: store_data_partition_def get_request_metadata_other_key
      get_request_metadata_set_request_data_partition split: option.split)

lemma server_url_source_store_token:
  "get_request_metadata c ''server_url_source'' dflt (store_token c t w)
     = get_request_metadata c ''server_url_source'' dflt w"
  by (simp add: store_token_def get_request_metadata_other_key
      get_request_metadata_set_request_user_token Let_def split: option.split)

lemma server_url_source_store_data_partition:
  "get_request_metadata c ''server_url_source'' dflt (store_data_partition c p w)
     = get_request_metadata c ''server_url_source'' dflt w"
  by (simp add: store_data_partition_def get_request_metadata_other_key
      get_request_metadata_set_request_data_partition split: option.split)

lemma data_partition_source_store_token:
  "get_request_metadata c ''data_partition_source'' dflt (store_token c t w)
     = get_request_metadata c ''data_partition_source'' dflt w"
  by (simp add: store_token_def get_request_metadata_other_key
      get_request_metadata_set_request_user_token Let_def split: option.split)

lemma data_partition_source_store_server_url:
  "get_request_metadata c ''data_partition_source'' dflt (store_server_url c u w)
     = get_request_metadata c ''data_partition_source'' dflt w"
  by (simp add: store_server_url_def get_request_metadata_other_key
      get_request_metadata_set_request_server_url Let_def split: option.split)

subsection \<open>Stripping\<close>

lemma rstrip_decomposition:
  "\<exists>k. s = rstrip ch s @ replicate k ch \<and> (rstrip ch s = [] \<or> last (rstrip ch s) \<noteq> ch)"
proof -
  let ?P = "\<lambda>x. x = ch"
  have "rev s = takeWhile ?P (rev s) @ dropWhile ?P (rev s)" by simp
  then have "s = rev (dropWhile ?P (rev s)) @ rev (takeWhile ?P (rev s))"
    by (metis rev_append rev_rev_ident)
  moreover have "takeWhile ?P (rev s) = replicate (length (takeWhile ?P (rev s))) ch"
    by (rule replicate_eqI) (auto dest: set_takeWhileD)
  then have "rev (takeWhile ?P (rev s)) = replicate (length (takeWhile ?P (rev s))) ch"
    by (metis rev_replicate)
  moreover have "dropWhile ?P (rev s) \<noteq> [] \<Longrightarrow> last (rev (dropWhile ?P (rev s))) \<noteq> ch"
    using hd_dropWhile [of ?P "rev s"] by (simp add: last_rev)
  ultimately show ?thesis
    by (metis rstrip.simps rev_is_Nil_conv)
qed

lemma rstrip_unchanged:
  assumes "s = [] \<or> last s \<noteq> ch"
  shows "rstrip ch s = s"
proof (cases s rule: rev_cases)
  case Nil
  then show ?thesis by simp
next
  case (snoc ys y)
  with assms show ?thesis by simp
qed

section \<open>The header extraction middleware\<close>

text \<open>
  C3.  A token header value that the middleware found, that is, one that passes its
  \<^verbatim>\<open>if token:\<close> test (an empty value is treated like a missing header), is stored as
  \<^verbatim>\<open>user_token\<close> in the world handed to the application as follows: when its first seven
  characters spell \<^verbatim>\<open>Bearer\<close> and a space in any mix of cases, the value without exactly
  these seven characters; otherwise the value as it is.
\<close>

theorem bearer_prefix_stripped:
  assumes "extract_header (headers_of sc) ([USER_TOKEN_HEADER] @ ALT_TOKEN_HEADERS) = Some v"
    and "v \<noteq> []"
  shows "get_request_user_token c (extract_context c sc w)
     = Some (if bearer_prefix_any_case v then drop 7 v else v)"
proof -
  have "request_user_token (contexts (extract_context c sc w) c)
      = request_user_token (contexts (store_token c (Some v) w) c)"
    using assms(1)
    by (simp add: extract_context_def Let_def token_slot_store_data_partition
        token_slot_store_server_url)
  also have "\<dots> = Some (Some (if bearer_prefix_any_case v then drop 7 v else v))"
    using assms(2)
    by (simp add: store_token_def Let_def token_slot_set_request_metadata
        set_request_user_token_def contexts_upd_context startswith_bearer)
  finally show ?thesis
    by (simp add: get_request_user_token_def ctxvar_get_def)
qed

theorem bearer_prefix_stripped_witness:
  "extract_header
     (headers_of \<lparr>scope_type = ''http'', scope_headers = Some [(''osdu_mcp_user_token'', ''bEaReR abc'')]\<rparr>)
     ([USER_TOKEN_HEADER] @ ALT_TOKEN_HEADERS) = Some ''bEaReR abc''
   \<and> ''bEaReR abc'' \<noteq> []
   \<and> get_request_user_token 1
       (extract_context 1
         \<lparr>scope_type = ''http'', scope_headers = Some [(''osdu_mcp_user_token'', ''bEaReR abc'')]\<rparr>
         initial_world)
     = Some ''abc''"
proof -
  let ?sc = "\<lparr>scope_type = ''http'', scope_headers = Some [(''osdu_mcp_user_token'', ''bEaReR abc'')]\<rparr>"
  have a: "extract_header (headers_of ?sc) ([USER_TOKEN_HEADER] @ ALT_TOKEN_HEADERS) = Some ''bEaReR abc''"
    by code_simp
  have b: "''bEaReR abc'' \<noteq> []" by simp
  have c: "bearer_prefix_any_case ''bEaReR abc''" by code_simp
  from bearer_prefix_stripped [OF a b, of 1 initial_world] a b c show ?thesis by simp
qed

text \<open>
  C4.  A server URL header value that the middleware found (again one that passes its
  truth test) is stored as \<^verbatim>\<open>server_url\<close> without any of its trailing slashes: the
  value is the stored string followed by slashes only, the stored string does not end
  with a slash, and a value that does not end with a slash is stored unchanged.
\<close>

theorem server_url_trailing_slashes_removed:
  assumes "extract_header (headers_of sc) ([SERVER_URL_HEADER] @ ALT_SERVER_URL_HEADERS) = Some v"
    and "v \<noteq> []"
  shows "\<exists>u k. get_request_server_url c (extract_context c sc w) = Some u
           \<and> v = u @ replicate k CHR ''/''
           \<and> (u = [] \<or> last u \<noteq> CHR ''/'')
           \<and> (last v \<noteq> CHR ''/'' \<longrightarrow> u = v)"
proof -
  let ?u = "rstrip CHR ''/'' v"
  have "request_server_url (contexts (extract_context c sc w) c)
      = request_server_url (contexts (store_server_url c (Some v)
          (store_token c (extract_header (headers_of sc) ([USER_TOKEN_HEADER] @ ALT_TOKEN_HEADERS)) w)) c)"
    using assms(1)
    by (simp add: extract_context_def Let_def url_slot_store_data_partition)
  also have "\<dots> = Some (Some ?u)"
    using assms(2)
    by (simp add: store_server_url_def Let_def url_slot_set_request_metadata
        set_request_server_url_def contexts_upd_context)
  finally have stored: "get_request_server_url c (extract_context c sc w) = Some ?u"
    by (simp add: get_request_server_url_def ctxvar_get_def)
  obtain k where k: "v = ?u @ replicate k CHR ''/''" "?u = [] \<or> last ?u \<noteq> CHR ''/''"
    using rstrip_decomposition [of v "CHR ''/''"] by blast
  have "last v \<noteq> CHR ''/'' \<longrightarrow> ?u = v"
    using rstrip_unchanged [of v "CHR ''/''"] by blast
  with stored k show ?thesis by blast
qed

theorem server_url_trailing_slashes_removed_witness:
  "extract_header
     (headers_of \<lparr>scope_type = ''http'', scope_headers = Some [(''x-osdu-mcp-server-url'', ''https://osdu.example.com//'')]\<rparr>)
     ([SERVER_URL_HEADER] @ ALT_SERVER_URL_HEADERS) = Some ''https://osdu.example.com//''
   \<and> ''https://osdu.example.com//'' \<noteq> []
   \<and> (\<exists>k. ''https://osdu.example.com//'' = ''https://osdu.example.com'' @ replicate k CHR ''/'')
   \<and> get_request_server_url 1
         (extract_context 1
           \<lparr>scope_type = ''http'', scope_headers = Some [(''x-osdu-mcp-server-url'', ''https://osdu.example.com//'')]\<rparr>
           initial_world) = Some ''https://osdu.example.com''"
proof -
  let ?sc = "\<lparr>scope_type = ''http'', scope_headers = Some [(''x-osdu-mcp-server-url'', ''https://osdu.example.com//'')]\<rparr>"
  have a: "extract_header (headers_of ?sc) ([SERVER_URL_HEADER] @ ALT_SERVER_URL_HEADERS)
      = Some ''https://osdu.example.com//''"
    by code_simp
  have b: "''https://osdu.example.com//'' \<noteq> []" by simp
  have c: "get_request_server_url 1 (extract_context 1 ?sc initial_world) = Some ''https://osdu.example.com''"
    by code_simp
  from server_url_trailing_slashes_removed [OF a b, of 1 initial_world] c
  have d: "\<exists>k. ''https://osdu.example.com//'' = ''https://osdu.example.com'' @ replicate k CHR ''/''"
    by (metis option.inject)
  from a b c d show ?thesis by blast
qed

text \<open>
  C9.  When the first header found for a category carries the empty string, the
  middleware does as if the header were missing: the slot of that category in the
  request's context is what it was before (unset, in a context that had not set it) and
  the lookup of that category's source key in the metadata gives what it gave before,
  so no source entry is written for the category.
\<close>

theorem empty_header_value_is_absent:
  "(extract_header (headers_of sc) ([USER_TOKEN_HEADER] @ ALT_TOKEN_HEADERS) = Some []
      \<longrightarrow> request_user_token (contexts (extract_context c sc w) c) = request_user_token (contexts w c)
        \<and> get_request_metadata c ''token_source'' dflt (extract_context c sc w)
            = get_request_metadata c ''token_source'' dflt w)
   \<and> (extract_header (headers_of sc) ([SERVER_URL_HEADER] @ ALT_SERVER_URL_HEADERS) = Some []
      \<longrightarrow> request_server_url (contexts (extract_context c sc w) c) = request_server_url (contexts w c)
        \<and> get_request_metadata c ''server_url_source'' dflt (extract_context c sc w)
            = get_request_metadata c ''server_url_source'' dflt w)
   \<and> (extract_header (headers_of sc) ([DATA_PARTITION_HEADER] @ ALT_DATA_PARTITION_HEADERS) = Some []
      \<longrightarrow> request_data_partition (contexts (extract_context c sc w) c)
            = request_data_partition (contexts w c)
        \<and> get_request_metadata c ''data_partition_source'' dflt (extract_context c sc w)
            = get_request_metadata c ''data_partition_source'' dflt w)"
proof (intro conjI impI)
  assume "extract_header (headers_of sc) ([USER_TOKEN_HEADER] @ ALT_TOKEN_HEADERS) = Some []"
  then have e: "extract_context c sc w
      = store_data_partition c
          (extract_header (headers_of sc) ([DATA_PARTITION_HEADER] @ ALT_DATA_PARTITION_HEADERS))
          (store_server_url c
            (extract_header (headers_of sc) ([SERVER_URL_HEADER] @ ALT_SERVER_URL_HEADERS)) w)"
    by (simp add: extract_context_def Let_def store_token_def)
  show "request_user_token (contexts (extract_context c sc w) c) = request_user_token (contexts w c)"
    by (simp only: e token_slot_store_data_partition token_slot_store_server_url)
  show "get_request_metadata c ''token_source'' dflt (extract_context c sc w)
      = get_request_metadata c ''token_source'' dflt w"
    by (simp only: e token_source_store_data_partition token_source_store_server_url)
next
  assume "extract_header (headers_of sc) ([SERVER_URL_HEADER] @ ALT_SERVER_URL_HEADERS) = Some []"
  then have e: "extract_context c sc w
      = store_data_partition c
          (extract_header (headers_of sc) ([DATA_PARTITION_HEADER] @ ALT_DATA_PARTITION_HEADERS))
          (store_token c
            (extract_header (headers_of sc) ([USER_TOKEN_HEADER] @ ALT_TOKEN_HEADERS)) w)"
    by (simp add: extract_context_def Let_def store_server_url_def)
  show "request_server_url (contexts (extract_context c sc w) c) = request_server_url (contexts w c)"
    by (simp only: e url_slot_store_data_partition url_slot_store_token)
  show "get_request_metadata c ''server_url_source'' dflt (extract_context c sc w)
      = get_request_metadata c ''server_url_source'' dflt w"
    by (simp only: e server_url_source_store_data_partition server_url_source_store_token)
next
  assume "extract_header (headers_of sc) ([DATA_PARTITION_HEADER] @ ALT_DATA_PARTITION_HEADERS) = Some []"
  then have e: "extract_context c sc w
      = store_server_url c
          (extract_header (headers_of sc) ([SERVER_URL_HEADER] @ ALT_SERVER_URL_HEADERS))
          (store_token c
            (extract_header (headers_of sc) ([USER_TOKEN_HEADER] @ ALT_TOKEN_HEADERS)) w)"
    by (simp add: extract_context_def Let_def store_data_partition_def)
  show "request_data_partition (contexts (extract_context c sc w) c)
      = request_data_partition (contexts w c)"
    by (simp only: e partition_slot_store_server_url partition_slot_store_token)
  show "get_request_metadata c ''data_partition_source'' dflt (extract_context c sc w)
      = get_request_metadata c ''data_partition_source'' dflt w"
    by (simp only: e data_partition_source_store_server_url data_partition_source_store_token)
qed

theorem empty_header_value_is_absent_witness:
  "extract_header
     (headers_of \<lparr>scope_type = ''http'', scope_headers = Some
        [(''osdu_mcp_user_token'', ''''), (''osdu-mcp-server-url'', ''''),
         (''x-osdu-mcp-data-partition'', '''')]\<rparr>)
     ([USER_TOKEN_HEADER] @ ALT_TOKEN_HEADERS) = Some []
   \<and> extract_header
     (headers_of \<lparr>scope_type = ''http'', scope_headers = Some
        [(''osdu_mcp_user_token'', ''''), (''osdu-mcp-server-url'', ''''),
         (''x-osdu-mcp-data-partition'', '''')]\<rparr>)
     ([SERVER_URL_HEADER] @ ALT_SERVER_URL_HEADERS) = Some []
   \<and> extract_header
     (headers_of \<lparr>scope_type = ''http'', scope_headers = Some
        [(''osdu_mcp_user_token'', ''''), (''osdu-mcp-server-url'', ''''),
         (''x-osdu-mcp-data-partition'', '''')]\<rparr>)
     ([DATA_PARTITION_HEADER] @ ALT_DATA_PARTITION_HEADERS) = Some []
   \<and> get_request_user_token 1
       (extract_context 1 \<lparr>scope_type = ''http'', scope_headers = Some
        [(''osdu_mcp_user_token'', ''''), (''osdu-mcp-server-url'', ''''),
         (''x-osdu-mcp-data-partition'', '''')]\<rparr> initial_world) = None
   \<and> get_request_server_url 1
       (extract_context 1 \<lparr>scope_type = ''http'', scope_headers = Some
        [(''osdu_mcp_user_token'', ''''), (''osdu-mcp-server-url'', ''''),
         (''x-osdu-mcp-data-partition'', '''')]\<rparr> initial_world) = None
   \<and> get_request_data_partition 1
       (extract_context 1 \<lparr>scope_type = ''http'', scope_headers = Some
        [(''osdu_mcp_user_token'', ''''), (''osdu-mcp-server-url'', ''''),
         (''x-osdu-mcp-data-partition'', '''')]\<rparr> initial_world) = None
   \<and> get_request_metadata 1 ''token_source'' PyNone
       (extract_context 1 \<lparr>scope_type = ''http'', scope_headers = Some
        [(''osdu_mcp_user_token'', ''''), (''osdu-mcp-server-url'', ''''),
         (''x-osdu-mcp-data-partition'', '''')]\<rparr> initial_world) = PyNone
   \<and> get_request_metadata 1 ''server_url_source'' PyNone
       (extract_context 1 \<lparr>scope_type = ''http'', scope_headers = Some
        [(''osdu_mcp_user_token'', ''''), (''osdu-mcp-server-url'', ''''),
         (''x-osdu-mcp-data-partition'', '''')]\<rparr> initial_world) = PyNone
   \<and> get_request_metadata 1 ''data_partition_source'' PyNone
       (extract_context 1 \<lparr>scope_type = ''http'', scope_headers = Some
        [(''osdu_mcp_user_token'', ''''), (''osdu-mcp-server-url'', ''''),
         (''x-osdu-mcp-data-partition'', '''')]\<rparr> initial_world) = PyNone"
proof -
  let ?sc = "\<lparr>scope_type = ''http'', scope_headers = Some
        [(''osdu_mcp_user_token'', ''''), (''osdu-mcp-server-url'', ''''),
         (''x-osdu-mcp-data-partition'', '''')]\<rparr>"
  have a: "extract_header (headers_of ?sc) ([USER_TOKEN_HEADER] @ ALT_TOKEN_HEADERS) = Some []"
    by code_simp
  have b: "extract_header (headers_of ?sc) ([SERVER_URL_HEADER] @ ALT_SERVER_URL_HEADERS) = Some []"
    by code_simp
  have d: "extract_header (headers_of ?sc) ([DATA_PARTITION_HEADER] @ ALT_DATA_PARTITION_HEADERS) = Some []"
    by code_simp
  have i: "request_user_token (contexts initial_world 1) = None"
    "request_server_url (contexts initial_world 1) = None"
    "request_data_partition (contexts initial_world 1) = None"
    by (simp_all add: initial_world_def unset_context_def)
  have m: "get_request_metadata 1 key PyNone initial_world = PyNone" for key
    by (simp add: get_request_metadata_def initial_world_def unset_context_def ctxvar_get_def)
  from empty_header_value_is_absent [of ?sc 1 initial_world PyNone] a b d i m
  show ?thesis
    by (simp add: get_request_user_token_def get_request_server_url_def
        get_request_data_partition_def ctxvar_get_def)
qed

subsection \<open>The cleanup\<close>

lemma get_request_user_token_cleanup: "get_request_user_token c (cleanup c w) = None"
  by (simp add: cleanup_def get_request_user_token_def clear_request_metadata_def new_dict_def
      clear_request_data_partition_def clear_request_server_url_def clear_request_user_token_def
      contexts_upd_context upd_context_def ctxvar_get_def)

lemma get_request_server_url_cleanup: "get_request_server_url c (cleanup c w) = None"
  by (simp add: cleanup_def get_request_server_url_def clear_request_metadata_def new_dict_def
      clear_request_data_partition_def clear_request_server_url_def clear_request_user_token_def
      contexts_upd_context upd_context_def ctxvar_get_def)

lemma get_request_data_partition_cleanup: "get_request_data_partition c (cleanup c w) = None"
  by (simp add: cleanup_def get_request_data_partition_def clear_request_metadata_def new_dict_def
      clear_request_data_partition_def clear_request_server_url_def clear_request_user_token_def
      contexts_upd_context upd_context_def ctxvar_get_def)

lemma get_request_metadata_clear:
  "get_request_metadata c key dflt (clear_request_metadata c w) = dflt"
  by (simp add: get_request_metadata_def clear_request_metadata_def new_dict_def
      upd_context_def ctxvar_get_def)

lemma get_request_metadata_cleanup: "get_request_metadata c key dflt (cleanup c w) = dflt"
  by (simp add: cleanup_def get_request_metadata_clear)

lemma call_http:
  assumes "scope_type sc \<in> {''http'', ''websocket''}"
  shows "call app c sc w
     = (fst (app sc (extract_context c sc w)), cleanup c (snd (app sc (extract_context c sc w))))"
  using assms by (simp add: call_def Let_def split: prod.split)

lemma call_other:
  assumes "scope_type sc \<notin> {''http'', ''websocket''}"
  shows "call app c sc w = app sc w"
  using assms by (simp add: call_def)

text \<open>
  In the context the middleware ran in, nothing is left after the \<^verbatim>\<open>finally\<close> block: the
  three getters return \<^verbatim>\<open>None\<close> and every metadata lookup returns the default the caller
  passes, whatever the wrapped application did.
\<close>

lemma own_context_cleared:
  assumes "scope_type sc \<in> {''http'', ''websocket''}"
  shows "get_request_user_token c (snd (call app c sc w)) = None
       \<and> get_request_server_url c (snd (call app c sc w)) = None
       \<and> get_request_data_partition c (snd (call app c sc w)) = None
       \<and> (\<forall>key dflt. get_request_metadata c key dflt (snd (call app c sc w)) = dflt)"
  by (simp add: call_http [OF assms] get_request_user_token_cleanup get_request_server_url_cleanup
      get_request_data_partition_cleanup get_request_metadata_cleanup)

subsection \<open>Header names\<close>

lemma extract_header_skip:
  assumes "\<forall>m \<in> set pre. headers (lower m) = None"
  shows "extract_header headers (pre @ names) = extract_header headers names"
  using assms by (induction pre) (simp_all add: Let_def)

lemma extract_context_by_category:
  "extract_context c sc w
     = store_data_partition c (extract_header (headers_of sc) (header_names DataPartition))
         (store_server_url c (extract_header (headers_of sc) (header_names ServerUrl))
           (store_token c (extract_header (headers_of sc) (header_names Token)) w))"
  by (simp add: extract_context_def Let_def)

lemma headers_of_single:
  "headers_of (asgi_http_scope [(n, v)]) = [bytes_lower n \<mapsto> v]"
  by (simp add: headers_of_def asgi_http_scope_def)

text \<open>The configured names are in lower case already, so lowering them changes nothing.\<close>

lemma lower_header_names:
  "map lower (header_names cat) = header_names cat"
  by (cases cat)
    (simp_all add: USER_TOKEN_HEADER_def ALT_TOKEN_HEADERS_def SERVER_URL_HEADER_def
      ALT_SERVER_URL_HEADERS_def DATA_PARTITION_HEADER_def ALT_DATA_PARTITION_HEADERS_def
      lower_def lower_char_def)

lemma bytes_lower_canonical:
  "bytes_lower (hd (header_names cat)) = hd (header_names cat)"
  by (cases cat)
    (simp_all add: USER_TOKEN_HEADER_def SERVER_URL_HEADER_def DATA_PARTITION_HEADER_def
      bytes_lower_def)

lemma extract_header_single:
  assumes "x \<in> set (header_names cat)"
  shows "extract_header [x \<mapsto> v] (header_names cat') = (if cat' = cat then Some v else None)"
  using assms
  by (cases cat; cases cat')
    (auto simp: USER_TOKEN_HEADER_def ALT_TOKEN_HEADERS_def SERVER_URL_HEADER_def
      ALT_SERVER_URL_HEADERS_def DATA_PARTITION_HEADER_def ALT_DATA_PARTITION_HEADERS_def
      lower_def lower_char_def)

text \<open>
  The lookup itself compares the keys of the dictionary as they are: a key that the
  server had left in capitals would not be found.
\<close>

lemma extract_header_exact_keys:
  "extract_header [''OSDU_MCP_USER_TOKEN'' \<mapsto> v] (header_names Token) = None"
  by (simp add: USER_TOKEN_HEADER_def ALT_TOKEN_HEADERS_def lower_def lower_char_def)

text \<open>
  C5.  Take any category, any of its three configured names and any spelling \<open>n\<close> of
  that name in capitals and small letters.  A request whose only header is \<open>n\<close> with
  content \<open>v\<close>, delivered by the server as an HTTP scope, leaves the extraction with the
  same world, and so the same stored values, as the request whose only header is the
  canonical name of the category with content \<open>v\<close>.
\<close>

theorem header_name_variants_equivalent:
  assumes "variant \<in> set (header_names cat)"
    and "bytes_lower n = variant"
  shows "extract_context c (asgi_http_scope [(n, v)]) w
     = extract_context c (asgi_http_scope [(hd (header_names cat), v)]) w"
proof -
  have canonical: "hd (header_names cat) \<in> set (header_names cat)"
    by (cases cat) simp_all
  have "extract_header (headers_of (asgi_http_scope [(n, v)])) (header_names cat')
      = extract_header (headers_of (asgi_http_scope [(hd (header_names cat), v)])) (header_names cat')"
    for cat'
    using assms extract_header_single [OF canonical, of v cat']
    by (simp only: headers_of_single bytes_lower_canonical extract_header_single)
  then show ?thesis
    by (simp only: extract_context_by_category)
qed

theorem header_name_variants_equivalent_witness:
  "''x-osdu-mcp-user-token'' \<in> set (header_names Token)
   \<and> bytes_lower ''X-OSDU-MCP-User-Token'' = ''x-osdu-mcp-user-token''
   \<and> hd (header_names Token) = ''osdu_mcp_user_token''
   \<and> extract_context 1 (asgi_http_scope [(''X-OSDU-MCP-User-Token'', ''Bearer abc'')]) initial_world
     = extract_context 1 (asgi_http_scope [(''osdu_mcp_user_token'', ''Bearer abc'')]) initial_world
   \<and> get_request_user_token 1
       (extract_context 1 (asgi_http_scope [(''osdu_mcp_user_token'', ''Bearer abc'')]) initial_world)
     = Some ''abc''"
proof -
  have a: "''x-osdu-mcp-user-token'' \<in> set (header_names Token)"
    by (simp add: ALT_TOKEN_HEADERS_def)
  have b: "bytes_lower ''X-OSDU-MCP-User-Token'' = ''x-osdu-mcp-user-token''"
    by (simp add: bytes_lower_def char_of_eq_iff)
  have d: "hd (header_names Token) = ''osdu_mcp_user_token''"
    by (simp add: USER_TOKEN_HEADER_def)
  have e: "get_request_user_token 1
       (extract_context 1 (asgi_http_scope [(''osdu_mcp_user_token'', ''Bearer abc'')]) initial_world)
     = Some ''abc''"
    by code_simp
  have f: "extract_context 1 (asgi_http_scope [(''X-OSDU-MCP-User-Token'', ''Bearer abc'')]) initial_world
     = extract_context 1 (asgi_http_scope [(''osdu_mcp_user_token'', ''Bearer abc'')]) initial_world"
    using header_name_variants_equivalent [OF a b, of 1 "''Bearer abc''" initial_world]
    by (simp only: d)
  from a b d e f show ?thesis by blast
qed

section \<open>Isolation between contexts\<close>

text \<open>
  The three string variables are kept apart: what the middleware stores while it runs
  in context \<open>c\<close> does not change their slots in another context.
\<close>

lemma other_context_slots_untouched:
  assumes "c' \<noteq> c"
  shows "request_user_token (contexts (extract_context c sc w) c') = request_user_token (contexts w c')"
    and "request_server_url (contexts (extract_context c sc w) c') = request_server_url (contexts w c')"
    and "request_data_partition (contexts (extract_context c sc w) c')
           = request_data_partition (contexts w c')"
  using assms
  by (simp_all add: extract_context_by_category store_token_def store_server_url_def
      store_data_partition_def token_slot_set_request_metadata url_slot_set_request_metadata
      partition_slot_set_request_metadata set_request_user_token_def set_request_server_url_def
      set_request_data_partition_def contexts_upd_context Let_def split: option.split)

text \<open>
  C8.  The metadata is not kept apart.  Request A, with a token header, runs in context
  1; while its application is in progress, request B, with no header at all, runs in
  context 2.  The handler of B reads its own token, which is unset, and the metadata key
  \<^verbatim>\<open>token_source\<close>, which holds what the middleware wrote for A.
\<close>

theorem metadata_leaks_between_overlapping_requests:
  "fst (call
          (\<lambda>scA wA.
             call (\<lambda>scB wB. (Returned (get_request_user_token 2 wB,
                                       get_request_metadata 2 ''token_source'' PyNone wB), wB))
               2 \<lparr>scope_type = ''http'', scope_headers = Some []\<rparr> wA)
          1 \<lparr>scope_type = ''http'', scope_headers = Some [(''osdu_mcp_user_token'', ''secret'')]\<rparr>
          initial_world)
     = Returned (None, PyStr ''http_header'')"
  by (simp add: call_def extract_context_def headers_of_def store_token_def store_server_url_def
      store_data_partition_def USER_TOKEN_HEADER_def ALT_TOKEN_HEADERS_def SERVER_URL_HEADER_def
      ALT_SERVER_URL_HEADERS_def DATA_PARTITION_HEADER_def ALT_DATA_PARTITION_HEADERS_def
      lower_def lower_char_def startswith_def set_request_metadata_def set_request_user_token_def
      get_request_user_token_def get_request_metadata_def upd_context_def ctxvar_get_def
      initial_world_def unset_context_def default_metadata_def Let_def)

section \<open>The Auth Resolver and the store\<close>

text \<open>
  C1.  When the store holds a token for the calling context, \<^verbatim>\<open>get_access_token\<close> returns
  that token as it is and leaves the counters of the static path and of the provider
  where they were, so neither was invoked.  When the token is unset, and so also right
  after a token that was set has been cleared, the result is that of the statically
  configured path, which is the pre-configured token when there is one and otherwise
  what the credential provider issues.
\<close>

theorem request_token_takes_priority:
  "(get_request_user_token c w = Some t \<longrightarrow> get_access_token c cfg w st = (Inr t, st))
   \<and> (get_request_user_token c w = None
        \<longrightarrow> get_access_token c cfg w st = static_credential_path cfg st)
   \<and> get_access_token c cfg (clear_request_user_token c (set_request_user_token c (Some t) w)) st
        = static_credential_path cfg st
   \<and> (static_token cfg = Some s \<longrightarrow> fst (static_credential_path cfg st) = Inr s)
   \<and> (static_token cfg = None \<and> credential_chain cfg = Some s
        \<longrightarrow> fst (static_credential_path cfg st) = Inr s)"
  by (simp add: get_access_token_def static_credential_path_def get_request_user_token_def
      clear_request_user_token_def set_request_user_token_def contexts_upd_context
      ctxvar_get_def Let_def)

theorem request_token_takes_priority_witness:
  "get_request_user_token 1 (set_request_user_token 1 (Some ''request-jwt'') initial_world)
     = Some ''request-jwt''
   \<and> get_access_token 1 \<lparr>static_token = Some ''env-jwt'', credential_chain = None\<rparr>
        (set_request_user_token 1 (Some ''request-jwt'') initial_world)
        \<lparr>static_path_calls = 0, provider_get_token_calls = 0\<rparr>
     = (Inr ''request-jwt'', \<lparr>static_path_calls = 0, provider_get_token_calls = 0\<rparr>)
   \<and> get_request_user_token 1 initial_world = None
   \<and> static_token \<lparr>static_token = Some ''env-jwt'', credential_chain = None\<rparr> = Some ''env-jwt''
   \<and> fst (get_access_token 1 \<lparr>static_token = Some ''env-jwt'', credential_chain = None\<rparr>
        initial_world \<lparr>static_path_calls = 0, provider_get_token_calls = 0\<rparr>)
     = Inr ''env-jwt''
   \<and> fst (get_access_token 1 \<lparr>static_token = Some ''env-jwt'', credential_chain = None\<rparr>
        (clear_request_user_token 1 (set_request_user_token 1 (Some ''request-jwt'') initial_world))
        \<lparr>static_path_calls = 0, provider_get_token_calls = 0\<rparr>)
     = Inr ''env-jwt''"
proof -
  let ?cfg = "\<lparr>static_token = Some ''env-jwt'', credential_chain = None\<rparr>"
  let ?st = "\<lparr>static_path_calls = 0, provider_get_token_calls = 0\<rparr>"
  let ?w = "set_request_user_token 1 (Some ''request-jwt'') initial_world"
  have a: "get_request_user_token 1 ?w = Some ''request-jwt''"
    by (simp add: get_request_user_token_def set_request_user_token_def contexts_upd_context
        ctxvar_get_def)
  have b: "get_request_user_token 1 initial_world = None"
    by (simp add: get_request_user_token_def initial_world_def unset_context_def ctxvar_get_def)
  have d: "static_token ?cfg = Some ''env-jwt''" by simp
  note set = request_token_takes_priority [of 1 ?w "''request-jwt''" ?cfg ?st "''env-jwt''"]
  note unset = request_token_takes_priority [of 1 initial_world "''request-jwt''" ?cfg ?st "''env-jwt''"]
  from set a have 1: "get_access_token 1 ?cfg ?w ?st = (Inr ''request-jwt'', ?st)" by blast
  from unset b d have 2: "fst (get_access_token 1 ?cfg initial_world ?st) = Inr ''env-jwt''"
    by metis
  from unset d have 3: "fst (get_access_token 1 ?cfg
      (clear_request_user_token 1 (set_request_user_token 1 (Some ''request-jwt'') initial_world)) ?st)
     = Inr ''env-jwt''"
    by metis
  from a b d 1 2 3 show ?thesis by blast
qed

section \<open>What the middleware stores\<close>

lemma stored_user_token:
  assumes "extract_header (headers_of sc) ([USER_TOKEN_HEADER] @ ALT_TOKEN_HEADERS) = Some v"
  shows "get_request_user_token c (extract_context c sc w)
     = (if v = [] then get_request_user_token c w
        else Some (if bearer_prefix_any_case v then drop 7 v else v))"
proof -
  have "request_user_token (contexts (extract_context c sc w) c)
      = request_user_token (contexts (store_token c (Some v) w) c)"
    using assms
    by (simp add: extract_context_def Let_def token_slot_store_data_partition
        token_slot_store_server_url)
  also have "\<dots> = (if v = [] then request_user_token (contexts w c)
                    else Some (Some (if bearer_prefix_any_case v then drop 7 v else v)))"
    by (simp add: store_token_def Let_def token_slot_set_request_metadata
        set_request_user_token_def contexts_upd_context startswith_bearer)
  finally show ?thesis
    by (simp add: get_request_user_token_def ctxvar_get_def)
qed

lemma stored_server_url:
  assumes "extract_header (headers_of sc) ([SERVER_URL_HEADER] @ ALT_SERVER_URL_HEADERS) = Some v"
  shows "get_request_server_url c (extract_context c sc w)
     = (if v = [] then get_request_server_url c w else Some (rstrip CHR ''/'' v))"
proof -
  have "request_server_url (contexts (extract_context c sc w) c)
      = request_server_url (contexts (store_server_url c (Some v)
          (store_token c (extract_header (headers_of sc) ([USER_TOKEN_HEADER] @ ALT_TOKEN_HEADERS)) w)) c)"
    using assms
    by (simp add: extract_context_def Let_def url_slot_store_data_partition)
  also have "\<dots> = (if v = [] then request_server_url (contexts w c)
                    else Some (Some (rstrip CHR ''/'' v)))"
    by (simp add: store_server_url_def Let_def url_slot_set_request_metadata
        set_request_server_url_def contexts_upd_context url_slot_store_token)
  finally show ?thesis
    by (simp add: get_request_server_url_def ctxvar_get_def)
qed

lemma stored_data_partition:
  assumes "extract_header (headers_of sc) ([DATA_PARTITION_HEADER] @ ALT_DATA_PARTITION_HEADERS) = Some v"
  shows "get_request_data_partition c (extract_context c sc w)
     = (if v = [] then get_request_data_partition c w else Some v)"
proof -
  have "request_data_partition (contexts (extract_context c sc w) c)
      = request_data_partition (contexts (store_data_partition c (Some v)
          (store_server_url c (extract_header (headers_of sc) ([SERVER_URL_HEADER] @ ALT_SERVER_URL_HEADERS))
            (store_token c (extract_header (headers_of sc) ([USER_TOKEN_HEADER] @ ALT_TOKEN_HEADERS)) w))) c)"
    using assms
    by (simp add: extract_context_def Let_def)
  also have "\<dots> = (if v = [] then request_data_partition (contexts w c) else Some (Some v))"
    by (simp add: store_data_partition_def partition_slot_set_request_metadata
        set_request_data_partition_def contexts_upd_context partition_slot_store_server_url
        partition_slot_store_token)
  finally show ?thesis
    by (simp add: get_request_data_partition_def ctxvar_get_def)
qed

lemma extract_header_first_match:
  assumes "\<forall>m \<in> set pre. headers (lower m) = None"
    and "headers (lower n) = Some v"
  shows "extract_header headers (pre @ n # post) = Some v"
  using assms by (simp add: extract_header_skip Let_def)

text \<open>
  C6.  The middleware tries the names of a category in the order in which it passes them,
  the canonical name first and the alternatives after it in their listed order.  When
  none of the names before \<open>n\<close> in that list is a key of the request's header dictionary
  and \<open>n\<close> is, with value \<open>v\<close>, then what the middleware stores for the category comes
  from \<open>v\<close> alone, whatever the request carries under the names after \<open>n\<close>: the token is
  \<open>v\<close> without its bearer prefix, the server URL is \<open>v\<close> without its trailing slashes, the
  data partition is \<open>v\<close>; and when \<open>v\<close> is empty nothing is stored, the later names are
  still not consulted.
\<close>

theorem first_matching_name_wins:
  assumes "\<forall>m \<in> set pre. headers_of sc (lower m) = None"
    and "headers_of sc (lower n) = Some v"
  shows "([USER_TOKEN_HEADER] @ ALT_TOKEN_HEADERS = pre @ n # post
          \<longrightarrow> get_request_user_token c (extract_context c sc w)
              = (if v = [] then get_request_user_token c w
                 else Some (if bearer_prefix_any_case v then drop 7 v else v)))
       \<and> ([SERVER_URL_HEADER] @ ALT_SERVER_URL_HEADERS = pre @ n # post
          \<longrightarrow> get_request_server_url c (extract_context c sc w)
              = (if v = [] then get_request_server_url c w else Some (rstrip CHR ''/'' v)))
       \<and> ([DATA_PARTITION_HEADER] @ ALT_DATA_PARTITION_HEADERS = pre @ n # post
          \<longrightarrow> get_request_data_partition c (extract_context c sc w)
              = (if v = [] then get_request_data_partition c w else Some v))"
proof (intro conjI impI)
  assume "[USER_TOKEN_HEADER] @ ALT_TOKEN_HEADERS = pre @ n # post"
  then have "extract_header (headers_of sc) ([USER_TOKEN_HEADER] @ ALT_TOKEN_HEADERS) = Some v"
    using extract_header_first_match [OF assms] by simp
  then show "get_request_user_token c (extract_context c sc w)
      = (if v = [] then get_request_user_token c w
         else Some (if bearer_prefix_any_case v then drop 7 v else v))"
    by (rule stored_user_token)
next
  assume "[SERVER_URL_HEADER] @ ALT_SERVER_URL_HEADERS = pre @ n # post"
  then have "extract_header (headers_of sc) ([SERVER_URL_HEADER] @ ALT_SERVER_URL_HEADERS) = Some v"
    using extract_header_first_match [OF assms] by simp
  then show "get_request_server_url c (extract_context c sc w)
      = (if v = [] then get_request_server_url c w else Some (rstrip CHR ''/'' v))"
    by (rule stored_server_url)
next
  assume "[DATA_PARTITION_HEADER] @ ALT_DATA_PARTITION_HEADERS = pre @ n # post"
  then have "extract_header (headers_of sc) ([DATA_PARTITION_HEADER] @ ALT_DATA_PARTITION_HEADERS) = Some v"
    using extract_header_first_match [OF assms] by simp
  then show "get_request_data_partition c (extract_context c sc w)
      = (if v = [] then get_request_data_partition c w else Some v)"
    by (rule stored_data_partition)
qed


theorem first_matching_name_wins_witness:
  "[USER_TOKEN_HEADER] @ ALT_TOKEN_HEADERS
     = [] @ ''osdu_mcp_user_token'' # [''osdu-mcp-user-token'', ''x-osdu-mcp-user-token'']
   \<and> headers_of
        \<lparr>scope_type = ''http'', scope_headers = Some
          [(''x-osdu-mcp-user-token'', ''third''), (''osdu-mcp-user-token'', ''second''),
           (''osdu_mcp_user_token'', ''Bearer first''),
           (''x-osdu-mcp-data-partition'', ''p2''), (''osdu-mcp-data-partition'', ''p1'')]\<rparr>
        (lower ''osdu_mcp_user_token'') = Some ''Bearer first''
   \<and> get_request_user_token 1
        (extract_context 1
        \<lparr>scope_type = ''http'', scope_headers = Some
          [(''x-osdu-mcp-user-token'', ''third''), (''osdu-mcp-user-token'', ''second''),
           (''osdu_mcp_user_token'', ''Bearer first''),
           (''x-osdu-mcp-data-partition'', ''p2''), (''osdu-mcp-data-partition'', ''p1'')]\<rparr>
        initial_world) = Some ''first''
   \<and> [DATA_PARTITION_HEADER] @ ALT_DATA_PARTITION_HEADERS
     = [''osdu_mcp_data_partition''] @ ''osdu-mcp-data-partition'' # [''x-osdu-mcp-data-partition'']
   \<and> headers_of
        \<lparr>scope_type = ''http'', scope_headers = Some
          [(''x-osdu-mcp-user-token'', ''third''), (''osdu-mcp-user-token'', ''second''),
           (''osdu_mcp_user_token'', ''Bearer first''),
           (''x-osdu-mcp-data-partition'', ''p2''), (''osdu-mcp-data-partition'', ''p1'')]\<rparr>
        (lower ''osdu_mcp_data_partition'') = None
   \<and> headers_of
        \<lparr>scope_type = ''http'', scope_headers = Some
          [(''x-osdu-mcp-user-token'', ''third''), (''osdu-mcp-user-token'', ''second''),
           (''osdu_mcp_user_token'', ''Bearer first''),
           (''x-osdu-mcp-data-partition'', ''p2''), (''osdu-mcp-data-partition'', ''p1'')]\<rparr>
        (lower ''osdu-mcp-data-partition'') = Some ''p1''
   \<and> get_request_data_partition 1
        (extract_context 1
        \<lparr>scope_type = ''http'', scope_headers = Some
          [(''x-osdu-mcp-user-token'', ''third''), (''osdu-mcp-user-token'', ''second''),
           (''osdu_mcp_user_token'', ''Bearer first''),
           (''x-osdu-mcp-data-partition'', ''p2''), (''osdu-mcp-data-partition'', ''p1'')]\<rparr>
        initial_world) = Some ''p1''"
proof -
  let ?sc = "\<lparr>scope_type = ''http'', scope_headers = Some
          [(''x-osdu-mcp-user-token'', ''third''), (''osdu-mcp-user-token'', ''second''),
           (''osdu_mcp_user_token'', ''Bearer first''),
           (''x-osdu-mcp-data-partition'', ''p2''), (''osdu-mcp-data-partition'', ''p1'')]\<rparr>"
  have t0: "[USER_TOKEN_HEADER] @ ALT_TOKEN_HEADERS
     = [] @ ''osdu_mcp_user_token'' # [''osdu-mcp-user-token'', ''x-osdu-mcp-user-token'']"
    by (simp add: USER_TOKEN_HEADER_def ALT_TOKEN_HEADERS_def)
  have t1: "\<forall>m \<in> set []. headers_of ?sc (lower m) = None" by simp
  have t2: "headers_of ?sc (lower ''osdu_mcp_user_token'') = Some ''Bearer first''"
    by (simp add: headers_of_def lower_def lower_char_def char_of_eq_iff)
  have t3: "bearer_prefix_any_case ''Bearer first''" by code_simp
  have p0: "[DATA_PARTITION_HEADER] @ ALT_DATA_PARTITION_HEADERS
     = [''osdu_mcp_data_partition''] @ ''osdu-mcp-data-partition'' # [''x-osdu-mcp-data-partition'']"
    by (simp add: DATA_PARTITION_HEADER_def ALT_DATA_PARTITION_HEADERS_def)
  have p1: "headers_of ?sc (lower ''osdu_mcp_data_partition'') = None"
    by (simp add: headers_of_def lower_def lower_char_def char_of_eq_iff)
  then have p1': "\<forall>m \<in> set [''osdu_mcp_data_partition'']. headers_of ?sc (lower m) = None"
    by simp
  have p2: "headers_of ?sc (lower ''osdu-mcp-data-partition'') = Some ''p1''"
    by (simp add: headers_of_def lower_def lower_char_def char_of_eq_iff)
  have "get_request_user_token 1 (extract_context 1 ?sc initial_world)
      = (if ''Bearer first'' = [] then get_request_user_token 1 initial_world
         else Some (if bearer_prefix_any_case ''Bearer first'' then drop 7 ''Bearer first''
                    else ''Bearer first''))"
    using first_matching_name_wins [OF t1 t2] t0 by blast
  with t3 have t: "get_request_user_token 1 (extract_context 1 ?sc initial_world) = Some ''first''"
    by simp
  have "get_request_data_partition 1 (extract_context 1 ?sc initial_world)
      = (if ''p1'' = [] then get_request_data_partition 1 initial_world else Some ''p1'')"
    using first_matching_name_wins [OF p1' p2] p0 by blast
  then have p: "get_request_data_partition 1 (extract_context 1 ?sc initial_world) = Some ''p1''"
    by simp
  from t0 t2 t p0 p1 p2 p show ?thesis by blast
qed

text \<open>
  C7.  As amended: for every scope the wrapped application is run on that very scope,
  after the extraction for \<^verbatim>\<open>http\<close> and \<^verbatim>\<open>websocket\<close> and at once for the other types,
  and what the middleware yields is what the application yielded, so the middleware
  has no failing path of its own.  A category for which no header is found leaves its
  slot as it was, unset in a context that had not set it.  A header that is found with
  a value that is not empty is stored whatever the value is, since nothing checks it:
  the token without its bearer prefix, the server URL without its trailing slashes, the
  data partition as it is.
\<close>

theorem request_always_forwarded:
  "fst (call app c sc w)
     = fst (app sc (if scope_type sc \<in> {''http'', ''websocket''} then extract_context c sc w else w))
   \<and> (extract_header (headers_of sc) ([USER_TOKEN_HEADER] @ ALT_TOKEN_HEADERS) = None
      \<longrightarrow> request_user_token (contexts (extract_context c sc w) c) = request_user_token (contexts w c))
   \<and> (extract_header (headers_of sc) ([SERVER_URL_HEADER] @ ALT_SERVER_URL_HEADERS) = None
      \<longrightarrow> request_server_url (contexts (extract_context c sc w) c) = request_server_url (contexts w c))
   \<and> (extract_header (headers_of sc) ([DATA_PARTITION_HEADER] @ ALT_DATA_PARTITION_HEADERS) = None
      \<longrightarrow> request_data_partition (contexts (extract_context c sc w) c)
            = request_data_partition (contexts w c))
   \<and> (extract_header (headers_of sc) ([USER_TOKEN_HEADER] @ ALT_TOKEN_HEADERS) = Some vt \<and> vt \<noteq> []
      \<longrightarrow> get_request_user_token c (extract_context c sc w)
            = Some (if bearer_prefix_any_case vt then drop 7 vt else vt))
   \<and> (extract_header (headers_of sc) ([SERVER_URL_HEADER] @ ALT_SERVER_URL_HEADERS) = Some vu \<and> vu \<noteq> []
      \<longrightarrow> get_request_server_url c (extract_context c sc w) = Some (rstrip CHR ''/'' vu))
   \<and> (extract_header (headers_of sc) ([DATA_PARTITION_HEADER] @ ALT_DATA_PARTITION_HEADERS) = Some vp
        \<and> vp \<noteq> []
      \<longrightarrow> get_request_data_partition c (extract_context c sc w) = Some vp)"
proof (intro conjI impI)
  show "fst (call app c sc w)
     = fst (app sc (if scope_type sc \<in> {''http'', ''websocket''} then extract_context c sc w else w))"
  proof (cases "scope_type sc \<in> {''http'', ''websocket''}")
    case True
    then show ?thesis by (simp add: call_http [OF True])
  next
    case False
    then show ?thesis by (simp add: call_other [OF False])
  qed
next
  assume "extract_header (headers_of sc) ([USER_TOKEN_HEADER] @ ALT_TOKEN_HEADERS) = None"
  then show "request_user_token (contexts (extract_context c sc w) c) = request_user_token (contexts w c)"
    by (simp add: extract_context_def Let_def token_slot_store_data_partition
        token_slot_store_server_url store_token_def)
next
  assume "extract_header (headers_of sc) ([SERVER_URL_HEADER] @ ALT_SERVER_URL_HEADERS) = None"
  then show "request_server_url (contexts (extract_context c sc w) c) = request_server_url (contexts w c)"
    by (simp add: extract_context_def Let_def url_slot_store_data_partition
        url_slot_store_token store_server_url_def)
next
  assume "extract_header (headers_of sc) ([DATA_PARTITION_HEADER] @ ALT_DATA_PARTITION_HEADERS) = None"
  then show "request_data_partition (contexts (extract_context c sc w) c)
      = request_data_partition (contexts w c)"
    by (simp add: extract_context_def Let_def partition_slot_store_server_url
        partition_slot_store_token store_data_partition_def)
next
  assume "extract_header (headers_of sc) ([USER_TOKEN_HEADER] @ ALT_TOKEN_HEADERS) = Some vt \<and> vt \<noteq> []"
  then show "get_request_user_token c (extract_context c sc w)
      = Some (if bearer_prefix_any_case vt then drop 7 vt else vt)"
    by (simp add: stored_user_token)
next
  assume "extract_header (headers_of sc) ([SERVER_URL_HEADER] @ ALT_SERVER_URL_HEADERS) = Some vu \<and> vu \<noteq> []"
  then show "get_request_server_url c (extract_context c sc w) = Some (rstrip CHR ''/'' vu)"
    by (simp add: stored_server_url)
next
  assume "extract_header (headers_of sc) ([DATA_PARTITION_HEADER] @ ALT_DATA_PARTITION_HEADERS) = Some vp
      \<and> vp \<noteq> []"
  then show "get_request_data_partition c (extract_context c sc w) = Some vp"
    by (simp add: stored_data_partition)
qed

theorem request_always_forwarded_witness:
  "extract_header (headers_of \<lparr>scope_type = ''http'', scope_headers = Some [(''authorization'', ''Bearer abc'')]\<rparr>)
     ([USER_TOKEN_HEADER] @ ALT_TOKEN_HEADERS) = None
   \<and> extract_header (headers_of \<lparr>scope_type = ''http'', scope_headers = Some [(''authorization'', ''Bearer abc'')]\<rparr>)
     ([SERVER_URL_HEADER] @ ALT_SERVER_URL_HEADERS) = None
   \<and> extract_header (headers_of \<lparr>scope_type = ''http'', scope_headers = Some [(''authorization'', ''Bearer abc'')]\<rparr>)
     ([DATA_PARTITION_HEADER] @ ALT_DATA_PARTITION_HEADERS) = None
   \<and> fst (call (\<lambda>sc w. (Returned (get_request_user_token 1 w), w)) 1
        \<lparr>scope_type = ''http'', scope_headers = Some [(''authorization'', ''Bearer abc'')]\<rparr> initial_world)
      = Returned None
   \<and> request_user_token (contexts (extract_context 1
        \<lparr>scope_type = ''http'', scope_headers = Some [(''authorization'', ''Bearer abc'')]\<rparr> initial_world) 1) = None
   \<and> request_server_url (contexts (extract_context 1
        \<lparr>scope_type = ''http'', scope_headers = Some [(''authorization'', ''Bearer abc'')]\<rparr> initial_world) 1) = None
   \<and> request_data_partition (contexts (extract_context 1
        \<lparr>scope_type = ''http'', scope_headers = Some [(''authorization'', ''Bearer abc'')]\<rparr> initial_world) 1) = None
   \<and> extract_header (headers_of
        \<lparr>scope_type = ''http'', scope_headers = Some
          [(''osdu_mcp_user_token'', ''Bearer''), (''osdu_mcp_server_url'', ''not a url''),
           (''osdu_mcp_data_partition'', '' '')]\<rparr>)
     ([USER_TOKEN_HEADER] @ ALT_TOKEN_HEADERS) = Some ''Bearer''
   \<and> extract_header (headers_of
        \<lparr>scope_type = ''http'', scope_headers = Some
          [(''osdu_mcp_user_token'', ''Bearer''), (''osdu_mcp_server_url'', ''not a url''),
           (''osdu_mcp_data_partition'', '' '')]\<rparr>)
     ([SERVER_URL_HEADER] @ ALT_SERVER_URL_HEADERS) = Some ''not a url''
   \<and> extract_header (headers_of
        \<lparr>scope_type = ''http'', scope_headers = Some
          [(''osdu_mcp_user_token'', ''Bearer''), (''osdu_mcp_server_url'', ''not a url''),
           (''osdu_mcp_data_partition'', '' '')]\<rparr>)
     ([DATA_PARTITION_HEADER] @ ALT_DATA_PARTITION_HEADERS) = Some '' ''
   \<and> fst (call (\<lambda>sc w. (Raised ''RuntimeError'' :: unit outcome, w)) 1
        \<lparr>scope_type = ''http'', scope_headers = Some
          [(''osdu_mcp_user_token'', ''Bearer''), (''osdu_mcp_server_url'', ''not a url''),
           (''osdu_mcp_data_partition'', '' '')]\<rparr> initial_world)
      = Raised ''RuntimeError''
   \<and> get_request_user_token 1 (extract_context 1
        \<lparr>scope_type = ''http'', scope_headers = Some
          [(''osdu_mcp_user_token'', ''Bearer''), (''osdu_mcp_server_url'', ''not a url''),
           (''osdu_mcp_data_partition'', '' '')]\<rparr> initial_world) = Some ''Bearer''
   \<and> get_request_server_url 1 (extract_context 1
        \<lparr>scope_type = ''http'', scope_headers = Some
          [(''osdu_mcp_user_token'', ''Bearer''), (''osdu_mcp_server_url'', ''not a url''),
           (''osdu_mcp_data_partition'', '' '')]\<rparr> initial_world) = Some ''not a url''
   \<and> get_request_data_partition 1 (extract_context 1
        \<lparr>scope_type = ''http'', scope_headers = Some
          [(''osdu_mcp_user_token'', ''Bearer''), (''osdu_mcp_server_url'', ''not a url''),
           (''osdu_mcp_data_partition'', '' '')]\<rparr> initial_world) = Some '' ''"
proof -
  let ?sc = "\<lparr>scope_type = ''http'', scope_headers = Some [(''authorization'', ''Bearer abc'')]\<rparr>"
  let ?app = "\<lambda>(sc :: scope) w. (Returned (get_request_user_token 1 w), w)"
  let ?sc' = "\<lparr>scope_type = ''http'', scope_headers = Some
          [(''osdu_mcp_user_token'', ''Bearer''), (''osdu_mcp_server_url'', ''not a url''),
           (''osdu_mcp_data_partition'', '' '')]\<rparr>"
  let ?app' = "\<lambda>(sc :: scope) (w :: world). (Raised ''RuntimeError'' :: unit outcome, w)"
  have a: "extract_header (headers_of ?sc) ([USER_TOKEN_HEADER] @ ALT_TOKEN_HEADERS) = None"
    by code_simp
  have b: "extract_header (headers_of ?sc) ([SERVER_URL_HEADER] @ ALT_SERVER_URL_HEADERS) = None"
    by code_simp
  have d: "extract_header (headers_of ?sc) ([DATA_PARTITION_HEADER] @ ALT_DATA_PARTITION_HEADERS) = None"
    by code_simp
  have i: "request_user_token (contexts initial_world 1) = None"
    "request_server_url (contexts initial_world 1) = None"
    "request_data_partition (contexts initial_world 1) = None"
    by (simp_all add: initial_world_def unset_context_def)
  note missing = request_always_forwarded [of ?app 1 ?sc initial_world]
  from missing a i(1) have m0: "fst (call ?app 1 ?sc initial_world) = Returned None"
    by (simp add: get_request_user_token_def ctxvar_get_def)
  from missing a i(1)
  have m1: "request_user_token (contexts (extract_context 1 ?sc initial_world) 1) = None"
    by simp
  from missing b i(2)
  have m2: "request_server_url (contexts (extract_context 1 ?sc initial_world) 1) = None"
    by simp
  from missing d i(3)
  have m3: "request_data_partition (contexts (extract_context 1 ?sc initial_world) 1) = None"
    by simp
  have a': "extract_header (headers_of ?sc') ([USER_TOKEN_HEADER] @ ALT_TOKEN_HEADERS) = Some ''Bearer''"
    by code_simp
  have b': "extract_header (headers_of ?sc') ([SERVER_URL_HEADER] @ ALT_SERVER_URL_HEADERS) = Some ''not a url''"
    by code_simp
  have d': "extract_header (headers_of ?sc') ([DATA_PARTITION_HEADER] @ ALT_DATA_PARTITION_HEADERS) = Some '' ''"
    by code_simp
  have nb: "\<not> bearer_prefix_any_case ''Bearer''" by code_simp
  have rs: "rstrip CHR ''/'' ''not a url'' = ''not a url''" by code_simp
  note present = request_always_forwarded
    [of ?app' 1 ?sc' initial_world "''Bearer''" "''not a url''" "'' ''"]
  from present have s0: "fst (call ?app' 1 ?sc' initial_world) = Raised ''RuntimeError''"
    by simp
  from present a' nb
  have s1: "get_request_user_token 1 (extract_context 1 ?sc' initial_world) = Some ''Bearer''"
    by simp
  from present b' rs
  have s2: "get_request_server_url 1 (extract_context 1 ?sc' initial_world) = Some ''not a url''"
    by simp
  from present d'
  have s3: "get_request_data_partition 1 (extract_context 1 ?sc' initial_world) = Some '' ''"
    by simp
  from a b d m0 m1 m2 m3 a' b' d' s0 s1 s2 s3 show ?thesis by blast
qed

text \<open>
  The specification has a malformed header leave the field unset.  A server URL header
  whose value is no URL is stored all the same, with its source.
\<close>

theorem malformed_header_is_stored:
  "get_request_server_url 1 initial_world = None
   \<and> get_request_server_url 1
        (extract_context 1
        \<lparr>scope_type = ''http'', scope_headers = Some
          [(''osdu_mcp_server_url'', ''not a url'')]\<rparr>
        initial_world) = Some ''not a url''
   \<and> get_request_metadata 1 ''server_url_source'' PyNone
        (extract_context 1
        \<lparr>scope_type = ''http'', scope_headers = Some
          [(''osdu_mcp_server_url'', ''not a url'')]\<rparr>
        initial_world) = PyStr ''http_header''"
  by code_simp

section \<open>What the cleanup leaves behind\<close>

text \<open>
  C2.  The \<^verbatim>\<open>finally\<close> block runs, also when the application raises, and the context of
  the request is clean afterwards; but \<^verbatim>\<open>clear_request_metadata\<close> binds the variable to
  a new dictionary and leaves the default dictionary as it is.  Request A carries a token
  header and runs in context 1, its application raises.  Once it has completed, the
  lookup of \<^verbatim>\<open>token_source\<close> in context 1 returns the default, while in context 2, which
  has set nothing, it returns what the middleware wrote for A; the handler of a later
  request B without any header, run in context 2, sees the same.
\<close>

theorem metadata_survives_cleanup:
  "fst (call (\<lambda>sc w. (Raised ''RuntimeError'' :: unit outcome, w)) 1
          \<lparr>scope_type = ''http'', scope_headers = Some
          [(''osdu_mcp_user_token'', ''Bearer abc'')]\<rparr>
          initial_world) = Raised ''RuntimeError''
   \<and> get_request_metadata 1 ''token_source'' PyNone
        (snd (call (\<lambda>sc w. (Raised ''RuntimeError'' :: unit outcome, w)) 1
          \<lparr>scope_type = ''http'', scope_headers = Some
          [(''osdu_mcp_user_token'', ''Bearer abc'')]\<rparr>
          initial_world)) = PyNone
   \<and> get_request_metadata 2 ''token_source'' PyNone
        (snd (call (\<lambda>sc w. (Raised ''RuntimeError'' :: unit outcome, w)) 1
          \<lparr>scope_type = ''http'', scope_headers = Some
          [(''osdu_mcp_user_token'', ''Bearer abc'')]\<rparr>
          initial_world)) = PyStr ''http_header''
   \<and> fst (call (\<lambda>sc w. (Returned (get_request_metadata 2 ''token_source'' PyNone w), w)) 2
          \<lparr>scope_type = ''http'', scope_headers = Some []\<rparr>
          (snd (call (\<lambda>sc w. (Raised ''RuntimeError'' :: unit outcome, w)) 1
            \<lparr>scope_type = ''http'', scope_headers = Some
          [(''osdu_mcp_user_token'', ''Bearer abc'')]\<rparr>
            initial_world))) = Returned (PyStr ''http_header'')"
  by (simp add: call_def cleanup_def extract_context_def headers_of_def store_token_def
      store_server_url_def store_data_partition_def USER_TOKEN_HEADER_def ALT_TOKEN_HEADERS_def
      SERVER_URL_HEADER_def ALT_SERVER_URL_HEADERS_def DATA_PARTITION_HEADER_def
      ALT_DATA_PARTITION_HEADERS_def lower_def lower_char_def startswith_def
      set_request_metadata_def set_request_user_token_def clear_request_metadata_def
      clear_request_data_partition_def clear_request_server_url_def clear_request_user_token_def
      new_dict_def get_request_metadata_def upd_context_def ctxvar_get_def
      initial_world_def unset_context_def default_metadata_def Let_def)

end
